theory Spec2Isabelle
  imports Complex_Main "HOL-Library.Log_Nat"
begin

section \<open>Fitness tracker: the calculation hierarchy of homework.py\<close>

text \<open>
  The module computes distance, mean speed and spent calories of a workout from a sensor
  package, and renders one line of text. The dataclasses do not check the annotated field
  types, so every field takes any number; its value is a \<^typ>\<open>rat\<close>.

  The arithmetic is embedded twice. In the first embedding every operation is exact; it
  carries the properties that rest on the structure of the formulas, on the exceptions
  and on signs. In the second every operation is rounded to binary64, as the interpreter
  rounds a \<^verbatim>\<open>float\<close>; its functions end in \<open>64\<close> and carry the properties that are about
  the numbers the methods return.
\<close>

subsection \<open>Exceptions\<close>

text \<open>
  The exceptions the module can raise: \<^verbatim>\<open>ValueError\<close> is raised by \<^verbatim>\<open>read_package\<close> with its
  message, \<^verbatim>\<open>TypeError\<close> by a dataclass constructor called with the wrong number of
  positional arguments, \<^verbatim>\<open>ZeroDivisionError\<close> by \<^verbatim>\<open>/\<close> and \<^verbatim>\<open>//\<close> on a zero divisor,
  \<^verbatim>\<open>NotImplementedError\<close> by the base class.
\<close>

datatype error = ValueError string | TypeError | ZeroDivisionError | NotImplementedError

definition truediv :: "rat \<Rightarrow> rat \<Rightarrow> error + rat" where
  "truediv a b = (if b = 0 then Inl ZeroDivisionError else Inr (a / b))"

definition floordiv :: "rat \<Rightarrow> rat \<Rightarrow> error + rat" where
  "floordiv a b = (if b = 0 then Inl ZeroDivisionError else Inr (of_int \<lfloor>a / b\<rfloor>))"

subsection \<open>The message\<close>

record InfoMessage =
  info_training_type :: string
  info_duration :: rat
  info_distance :: rat
  info_speed :: rat
  info_calories :: rat

text \<open>
  The literal parts of \<^verbatim>\<open>MESSAGE_TEXT\<close>, as the bytes of their UTF-8 encoding. Each is
  the text that stands before the field it is named after; the template ends with a
  full stop.
\<close>

definition TEXT_training_type :: string where
  "TEXT_training_type =
     [CHR 0xD0, CHR 0xA2, CHR 0xD0, CHR 0xB8, CHR 0xD0, CHR 0xBF, CHR 0x20, CHR 0xD1,
      CHR 0x82, CHR 0xD1, CHR 0x80, CHR 0xD0, CHR 0xB5, CHR 0xD0, CHR 0xBD, CHR 0xD0,
      CHR 0xB8, CHR 0xD1, CHR 0x80, CHR 0xD0, CHR 0xBE, CHR 0xD0, CHR 0xB2, CHR 0xD0,
      CHR 0xBA, CHR 0xD0, CHR 0xB8, CHR 0x3A, CHR 0x20]"

definition TEXT_duration :: string where
  "TEXT_duration =
     [CHR 0x3B, CHR 0x20, CHR 0xD0, CHR 0x94, CHR 0xD0, CHR 0xBB, CHR 0xD0, CHR 0xB8,
      CHR 0xD1, CHR 0x82, CHR 0xD0, CHR 0xB5, CHR 0xD0, CHR 0xBB, CHR 0xD1, CHR 0x8C,
      CHR 0xD0, CHR 0xBD, CHR 0xD0, CHR 0xBE, CHR 0xD1, CHR 0x81, CHR 0xD1, CHR 0x82,
      CHR 0xD1, CHR 0x8C, CHR 0x3A, CHR 0x20]"

definition TEXT_distance :: string where
  "TEXT_distance =
     [CHR 0x20, CHR 0xD1, CHR 0x87, CHR 0x2E, CHR 0x3B, CHR 0x20, CHR 0xD0, CHR 0x94,
      CHR 0xD0, CHR 0xB8, CHR 0xD1, CHR 0x81, CHR 0xD1, CHR 0x82, CHR 0xD0, CHR 0xB0,
      CHR 0xD0, CHR 0xBD, CHR 0xD1, CHR 0x86, CHR 0xD0, CHR 0xB8, CHR 0xD1, CHR 0x8F,
      CHR 0x3A, CHR 0x20]"

definition TEXT_speed :: string where
  "TEXT_speed =
     [CHR 0x20, CHR 0xD0, CHR 0xBA, CHR 0xD0, CHR 0xBC, CHR 0x3B, CHR 0x20, CHR 0xD0,
      CHR 0xA1, CHR 0xD1, CHR 0x80, CHR 0x2E, CHR 0x20, CHR 0xD1, CHR 0x81, CHR 0xD0,
      CHR 0xBA, CHR 0xD0, CHR 0xBE, CHR 0xD1, CHR 0x80, CHR 0xD0, CHR 0xBE, CHR 0xD1,
      CHR 0x81, CHR 0xD1, CHR 0x82, CHR 0xD1, CHR 0x8C, CHR 0x3A, CHR 0x20]"

definition TEXT_calories :: string where
  "TEXT_calories =
     [CHR 0x20, CHR 0xD0, CHR 0xBA, CHR 0xD0, CHR 0xBC, CHR 0x2F, CHR 0xD1, CHR 0x87,
      CHR 0x3B, CHR 0x20, CHR 0xD0, CHR 0x9F, CHR 0xD0, CHR 0xBE, CHR 0xD1, CHR 0x82,
      CHR 0xD1, CHR 0x80, CHR 0xD0, CHR 0xB0, CHR 0xD1, CHR 0x87, CHR 0xD0, CHR 0xB5,
      CHR 0xD0, CHR 0xBD, CHR 0xD0, CHR 0xBE, CHR 0x20, CHR 0xD0, CHR 0xBA, CHR 0xD0,
      CHR 0xBA, CHR 0xD0, CHR 0xB0, CHR 0xD0, CHR 0xBB, CHR 0x3A, CHR 0x20]"

text \<open>
  The format specification \<^verbatim>\<open>.3f\<close>: fixed point with three decimals, the value rounded
  to the nearest thousandth and a tie to the even one; a negative value keeps its sign
  also when it rounds to zero.
\<close>

definition round_half_even :: "rat \<Rightarrow> int" where
  "round_half_even q =
     (let f = \<lfloor>q\<rfloor>; r = q - of_int f
      in if r < 1 / 2 then f else if 1 / 2 < r then f + 1 else if even f then f else f + 1)"

definition digit :: "nat \<Rightarrow> char" where
  "digit d = ''0123456789'' ! (d mod 10)"

function decimal :: "nat \<Rightarrow> string" where
  "decimal n = (if n < 10 then [digit n] else decimal (n div 10) @ [digit (n mod 10)])"
  by pat_completeness auto
termination
  by (relation "measure (\<lambda>n. n)") auto

definition format_3f :: "rat \<Rightarrow> string" where
  "format_3f x =
     (let n = nat (round_half_even (\<bar>x\<bar> * 1000))
      in (if x < 0 then ''-'' else '''') @ decimal (n div 1000) @ ''.'' @
         [digit (n div 100), digit (n div 10), digit n])"

definition get_message :: "InfoMessage \<Rightarrow> string" where
  "get_message m =
     TEXT_training_type @ info_training_type m @
     TEXT_duration @ format_3f (info_duration m) @
     TEXT_distance @ format_3f (info_distance m) @
     TEXT_speed @ format_3f (info_speed m) @
     TEXT_calories @ format_3f (info_calories m) @ ''.''"

subsection \<open>The workouts\<close>

text \<open>
  The class of an object decides which methods run, so the hierarchy is one datatype
  with a constructor per class: the base class with its three fields, and the three
  subclasses with the fields they add, in declaration order.
\<close>

datatype training =
    Training (action: rat) (duration: rat) (weight: rat)
  | Running (action: rat) (duration: rat) (weight: rat)
  | SportsWalking (action: rat) (duration: rat) (weight: rat) (height: rat)
  | Swimming (action: rat) (duration: rat) (weight: rat) (length_pool: rat) (count_pool: rat)

fun class_name :: "training \<Rightarrow> string" where
  "class_name (Training a d w) = ''Training''"
| "class_name (Running a d w) = ''Running''"
| "class_name (SportsWalking a d w h) = ''SportsWalking''"
| "class_name (Swimming a d w lp cp) = ''Swimming''"

fun LEN_STEP :: "training \<Rightarrow> rat" where
  "LEN_STEP (Swimming a d w lp cp) = 1.38"
| "LEN_STEP t = 0.65"

definition M_IN_KM :: rat where
  "M_IN_KM = 1000"

definition MIN_IN_HOUR :: rat where
  "MIN_IN_HOUR = 60"

definition Running_SPEND_CALORIES_FACTOR :: rat where
  "Running_SPEND_CALORIES_FACTOR = 18"

definition Running_SPEND_CALORIES_FACTOR_1 :: rat where
  "Running_SPEND_CALORIES_FACTOR_1 = 20"

definition SportsWalking_SPEND_CALORIES_FACTOR :: rat where
  "SportsWalking_SPEND_CALORIES_FACTOR = 0.035"

definition SportsWalking_SPEND_CALORIES_FACTOR_1 :: nat where
  "SportsWalking_SPEND_CALORIES_FACTOR_1 = 2"

definition SportsWalking_SPEND_CALORIES_FACTOR_2 :: rat where
  "SportsWalking_SPEND_CALORIES_FACTOR_2 = 0.029"

definition Swimming_SPEND_CALORIES_FACTOR :: rat where
  "Swimming_SPEND_CALORIES_FACTOR = 1.1"

definition Swimming_SPEND_CALORIES_FACTOR_1 :: rat where
  "Swimming_SPEND_CALORIES_FACTOR_1 = 2"

definition get_distance :: "training \<Rightarrow> rat" where
  "get_distance t = action t * LEN_STEP t / M_IN_KM"

fun get_mean_speed :: "training \<Rightarrow> error + rat" where
  "get_mean_speed (Swimming a d w lp cp) = truediv (lp * cp / M_IN_KM) d"
| "get_mean_speed t = truediv (get_distance t) (duration t)"

fun get_spent_calories :: "training \<Rightarrow> error + rat" where
  "get_spent_calories (Training a d w) = Inl NotImplementedError"
| "get_spent_calories (Running a d w) =
     (case get_mean_speed (Running a d w) of
        Inl e \<Rightarrow> Inl e
      | Inr v \<Rightarrow>
          Inr ((Running_SPEND_CALORIES_FACTOR * v - Running_SPEND_CALORIES_FACTOR_1)
               * w / M_IN_KM * (d * MIN_IN_HOUR)))"
| "get_spent_calories (SportsWalking a d w h) =
     (case get_mean_speed (SportsWalking a d w h) of
        Inl e \<Rightarrow> Inl e
      | Inr v \<Rightarrow>
          (case floordiv (v ^ SportsWalking_SPEND_CALORIES_FACTOR_1) h of
             Inl e \<Rightarrow> Inl e
           | Inr q \<Rightarrow>
               Inr ((SportsWalking_SPEND_CALORIES_FACTOR * w
                     + q * SportsWalking_SPEND_CALORIES_FACTOR_2 * w)
                    * d * MIN_IN_HOUR)))"
| "get_spent_calories (Swimming a d w lp cp) =
     (case get_mean_speed (Swimming a d w lp cp) of
        Inl e \<Rightarrow> Inl e
      | Inr v \<Rightarrow>
          Inr ((v + Swimming_SPEND_CALORIES_FACTOR) * Swimming_SPEND_CALORIES_FACTOR_1 * w))"

text \<open>
  The arguments of the \<^verbatim>\<open>InfoMessage\<close> are evaluated from left to right, so a failing
  mean speed is raised before the calories are computed.
\<close>

definition show_training_info :: "training \<Rightarrow> error + InfoMessage" where
  "show_training_info t =
     (case get_mean_speed t of
        Inl e \<Rightarrow> Inl e
      | Inr v \<Rightarrow>
          (case get_spent_calories t of
             Inl e \<Rightarrow> Inl e
           | Inr c \<Rightarrow>
               Inr \<lparr>info_training_type = class_name t, info_duration = duration t,
                    info_distance = get_distance t, info_speed = v, info_calories = c\<rparr>))"

subsection \<open>Reading a package\<close>

text \<open>
  A class called with the unpacked list \<^verbatim>\<open>*data\<close> binds the elements to its fields by
  position; the generated constructor raises \<^verbatim>\<open>TypeError\<close> when their number is not the
  number of fields.
\<close>

fun Running_init :: "rat list \<Rightarrow> error + training" where
  "Running_init [a, d, w] = Inr (Running a d w)"
| "Running_init data = Inl TypeError"

fun SportsWalking_init :: "rat list \<Rightarrow> error + training" where
  "SportsWalking_init [a, d, w, h] = Inr (SportsWalking a d w h)"
| "SportsWalking_init data = Inl TypeError"

fun Swimming_init :: "rat list \<Rightarrow> error + training" where
  "Swimming_init [a, d, w, lp, cp] = Inr (Swimming a d w lp cp)"
| "Swimming_init data = Inl TypeError"

definition types_training :: "string \<rightharpoonup> (rat list \<Rightarrow> error + training)" where
  "types_training =
     [''SWM'' \<mapsto> Swimming_init, ''RUN'' \<mapsto> Running_init, ''WLK'' \<mapsto> SportsWalking_init]"

definition UNKNOWN_TYPE_TEXT :: string where
  "UNKNOWN_TYPE_TEXT =
     [CHR 0xD0, CHR 0x9D, CHR 0xD0, CHR 0xB5, CHR 0x20, CHR 0xD0, CHR 0xB8, CHR 0xD0,
      CHR 0xB7, CHR 0xD0, CHR 0xB2, CHR 0xD0, CHR 0xB5, CHR 0xD1, CHR 0x81, CHR 0xD1,
      CHR 0x82, CHR 0xD0, CHR 0xBD, CHR 0xD1, CHR 0x8B, CHR 0xD0, CHR 0xB9, CHR 0x20,
      CHR 0xD1, CHR 0x82, CHR 0xD0, CHR 0xB8, CHR 0xD0, CHR 0xBF, CHR 0x20, CHR 0xD1,
      CHR 0x82, CHR 0xD1, CHR 0x80, CHR 0xD0, CHR 0xB5, CHR 0xD0, CHR 0xBD, CHR 0xD0,
      CHR 0xB8, CHR 0xD1, CHR 0x80, CHR 0xD0, CHR 0xBE, CHR 0xD0, CHR 0xB2, CHR 0xD0,
      CHR 0xBA, CHR 0xD0, CHR 0xB8, CHR 0x2E]"

definition read_package :: "string \<Rightarrow> rat list \<Rightarrow> error + training" where
  "read_package workout_type data =
     (case types_training workout_type of
        None \<Rightarrow> Inl (ValueError UNKNOWN_TYPE_TEXT)
      | Some cls \<Rightarrow> cls data)"

text \<open>
  \<^verbatim>\<open>main\<close> prints the message of a workout; its result here is the line written to the
  standard output, with the newline that \<^verbatim>\<open>print\<close> appends.
\<close>

definition main :: "training \<Rightarrow> error + string" where
  "main t =
     (case show_training_info t of
        Inl e \<Rightarrow> Inl e
      | Inr info \<Rightarrow> Inr (get_message info @ [CHR 0x0A]))"

subsection \<open>Binary64 arithmetic\<close>

text \<open>
  A Python \<^verbatim>\<open>float\<close> is an IEEE 754 binary64 number. The functions of this section
  compute with the exact values of such numbers: \<open>round64\<close> rounds a rational to the
  nearest number with 53 significant bits, a tie to the one with an even significand, and
  with the fixed spacing \<open>2 powi (- 1074)\<close> below \<open>2 powi (- 1022)\<close> (the subnormal
  numbers). It is the conversion of a float literal and of an \<^verbatim>\<open>int\<close> operand, and the
  rounding of every arithmetic result. Outside the model are results of magnitude
  \<open>2 powi 1024\<close> and more (an infinity, or an \<^verbatim>\<open>OverflowError\<close>), the sign of a zero, and
  products of two \<^verbatim>\<open>int\<close> fields that are not binary64 numbers.
\<close>

definition exponent :: "rat \<Rightarrow> int" where
  "exponent x =
     (let k = bitlen (fst (quotient_of \<bar>x\<bar>)) - bitlen (snd (quotient_of \<bar>x\<bar>))
      in if 2 powi k \<le> \<bar>x\<bar> then k else k - 1)"

definition round64 :: "rat \<Rightarrow> rat" where
  "round64 x =
     (if x = 0 then 0
      else let q = 2 powi (max (exponent x) (- 1022) - 52)
           in sgn x * of_int (round_half_even (\<bar>x\<bar> / q)) * q)"

definition add64 :: "rat \<Rightarrow> rat \<Rightarrow> rat" where
  "add64 a b = round64 (a + b)"

definition sub64 :: "rat \<Rightarrow> rat \<Rightarrow> rat" where
  "sub64 a b = round64 (a - b)"

definition mul64 :: "rat \<Rightarrow> rat \<Rightarrow> rat" where
  "mul64 a b = round64 (a * b)"

definition div64 :: "rat \<Rightarrow> rat \<Rightarrow> rat" where
  "div64 a b = round64 (a / b)"

definition truediv64 :: "rat \<Rightarrow> rat \<Rightarrow> error + rat" where
  "truediv64 a b = (if b = 0 then Inl ZeroDivisionError else Inr (div64 a b))"

text \<open>
  \<^verbatim>\<open>x ** 2\<close> on a float is the square of \<^verbatim>\<open>x\<close>, rounded once.
\<close>

definition pow64 :: "rat \<Rightarrow> nat \<Rightarrow> rat" where
  "pow64 a n = round64 (a ^ n)"

text \<open>
  \<^verbatim>\<open>x // y\<close> on floats, as the interpreter computes it: the remainder \<open>fmod\<close> of the
  division truncated towards zero is exact; the quotient is recomputed from it in
  binary64, lowered by one when the remainder and the divisor differ in sign, and snapped
  to the integer below it, or above it when it lies more than a half over that.
\<close>

definition fmod :: "rat \<Rightarrow> rat \<Rightarrow> rat" where
  "fmod x y = x - y * of_int (if 0 \<le> x / y then \<lfloor>x / y\<rfloor> else \<lceil>x / y\<rceil>)"

definition floordiv64 :: "rat \<Rightarrow> rat \<Rightarrow> error + rat" where
  "floordiv64 vx wx =
     (if wx = 0 then Inl ZeroDivisionError
      else let m = fmod vx wx;
               div0 = div64 (sub64 vx m) wx;
               div1 = (if m \<noteq> 0 \<and> (wx < 0) \<noteq> (m < 0) then sub64 div0 1 else div0);
               fl = of_int \<lfloor>div1\<rfloor>
           in Inr (if div1 = 0 then 0 else if 1 / 2 < div1 - fl then fl + 1 else fl))"

subsection \<open>The workouts in binary64\<close>

text \<open>
  The methods again, with every operation rounded as the interpreter rounds it. A field
  is converted where it is an operand; the integer constants are binary64 numbers as
  they stand.
\<close>

definition get_distance64 :: "training \<Rightarrow> rat" where
  "get_distance64 t = div64 (mul64 (round64 (action t)) (round64 (LEN_STEP t))) M_IN_KM"

fun get_mean_speed64 :: "training \<Rightarrow> error + rat" where
  "get_mean_speed64 (Swimming a d w lp cp) =
     truediv64 (div64 (mul64 (round64 lp) (round64 cp)) M_IN_KM) (round64 d)"
| "get_mean_speed64 t = truediv64 (get_distance64 t) (round64 (duration t))"

fun get_spent_calories64 :: "training \<Rightarrow> error + rat" where
  "get_spent_calories64 (Training a d w) = Inl NotImplementedError"
| "get_spent_calories64 (Running a d w) =
     (case get_mean_speed64 (Running a d w) of
        Inl e \<Rightarrow> Inl e
      | Inr v \<Rightarrow>
          Inr (mul64
                (div64
                  (mul64 (sub64 (mul64 Running_SPEND_CALORIES_FACTOR v)
                                Running_SPEND_CALORIES_FACTOR_1)
                         (round64 w))
                  M_IN_KM)
                (mul64 (round64 d) MIN_IN_HOUR)))"
| "get_spent_calories64 (SportsWalking a d w h) =
     (case get_mean_speed64 (SportsWalking a d w h) of
        Inl e \<Rightarrow> Inl e
      | Inr v \<Rightarrow>
          (case floordiv64 (pow64 v SportsWalking_SPEND_CALORIES_FACTOR_1) (round64 h) of
             Inl e \<Rightarrow> Inl e
           | Inr q \<Rightarrow>
               Inr (mul64
                     (mul64
                       (add64
                         (mul64 (round64 SportsWalking_SPEND_CALORIES_FACTOR) (round64 w))
                         (mul64 (mul64 q (round64 SportsWalking_SPEND_CALORIES_FACTOR_2))
                                (round64 w)))
                       (round64 d))
                     MIN_IN_HOUR)))"
| "get_spent_calories64 (Swimming a d w lp cp) =
     (case get_mean_speed64 (Swimming a d w lp cp) of
        Inl e \<Rightarrow> Inl e
      | Inr v \<Rightarrow>
          Inr (mul64
                (mul64 (add64 v (round64 Swimming_SPEND_CALORIES_FACTOR))
                       Swimming_SPEND_CALORIES_FACTOR_1)
                (round64 w)))"

subsection \<open>Valid readings\<close>

text \<open>
  The precondition the properties below are stated under: a reading of one of the three
  workouts whose duration and weight are positive, whose height is positive (walking)
  and whose pool length and count are not negative (swimming). An object of the base
  class is not a reading.
\<close>

fun valid_reading :: "training \<Rightarrow> bool" where
  "valid_reading (Training a d w) = False"
| "valid_reading (Running a d w) = (0 < d \<and> 0 < w)"
| "valid_reading (SportsWalking a d w h) = (0 < d \<and> 0 < w \<and> 0 < h)"
| "valid_reading (Swimming a d w lp cp) = (0 < d \<and> 0 < w \<and> 0 \<le> lp \<and> 0 \<le> cp)"

section \<open>Properties\<close>

subsection \<open>Auxiliary facts\<close>

lemmas constants =
  M_IN_KM_def MIN_IN_HOUR_def Running_SPEND_CALORIES_FACTOR_def
  Running_SPEND_CALORIES_FACTOR_1_def SportsWalking_SPEND_CALORIES_FACTOR_def
  SportsWalking_SPEND_CALORIES_FACTOR_1_def SportsWalking_SPEND_CALORIES_FACTOR_2_def
  Swimming_SPEND_CALORIES_FACTOR_def Swimming_SPEND_CALORIES_FACTOR_1_def

lemma read_package_SWM: "read_package ''SWM'' data = Swimming_init data"
  by (simp add: read_package_def types_training_def)

lemma read_package_RUN: "read_package ''RUN'' data = Running_init data"
  by (simp add: read_package_def types_training_def)

lemma read_package_WLK: "read_package ''WLK'' data = SportsWalking_init data"
  by (simp add: read_package_def types_training_def)

lemma read_package_unknown:
  "wt \<noteq> ''SWM'' \<Longrightarrow> wt \<noteq> ''RUN'' \<Longrightarrow> wt \<noteq> ''WLK''
   \<Longrightarrow> read_package wt data = Inl (ValueError UNKNOWN_TYPE_TEXT)"
  by (simp add: read_package_def types_training_def)

lemma truediv_zero: "truediv a 0 = Inl ZeroDivisionError"
  by (simp add: truediv_def)

lemma truediv_nonzero: "b \<noteq> 0 \<Longrightarrow> truediv a b = Inr (a / b)"
  by (simp add: truediv_def)

lemma truediv_pos: "0 < b \<Longrightarrow> truediv a b = Inr (a / b)"
  by (simp add: truediv_def)

lemma floordiv_zero: "floordiv a 0 = Inl ZeroDivisionError"
  by (simp add: floordiv_def)

lemma Running_init_Inr: "(\<exists>t. Running_init data = Inr t) \<longleftrightarrow> length data = 3"
  by (cases data rule: Running_init.cases) simp_all

lemma SportsWalking_init_Inr: "(\<exists>t. SportsWalking_init data = Inr t) \<longleftrightarrow> length data = 4"
  by (cases data rule: SportsWalking_init.cases) simp_all

lemma Swimming_init_Inr: "(\<exists>t. Swimming_init data = Inr t) \<longleftrightarrow> length data = 5"
  by (cases data rule: Swimming_init.cases) simp_all

lemma Running_init_TypeError: "length data \<noteq> 3 \<Longrightarrow> Running_init data = Inl TypeError"
  by (cases data rule: Running_init.cases) simp_all

lemma SportsWalking_init_TypeError:
  "length data \<noteq> 4 \<Longrightarrow> SportsWalking_init data = Inl TypeError"
  by (cases data rule: SportsWalking_init.cases) simp_all

lemma Swimming_init_TypeError: "length data \<noteq> 5 \<Longrightarrow> Swimming_init data = Inl TypeError"
  by (cases data rule: Swimming_init.cases) simp_all

lemma read_package_Inr:
  "(\<exists>t. read_package wt data = Inr t) \<longleftrightarrow>
     (wt = ''SWM'' \<and> length data = 5) \<or> (wt = ''RUN'' \<and> length data = 3)
     \<or> (wt = ''WLK'' \<and> length data = 4)"
proof -
  consider (swm) "wt = ''SWM''" | (run) "wt = ''RUN''" | (wlk) "wt = ''WLK''"
    | (other) "wt \<noteq> ''SWM''" "wt \<noteq> ''RUN''" "wt \<noteq> ''WLK''"
    by blast
  then show ?thesis
  proof cases
    case swm
    then show ?thesis
      by (simp add: read_package_SWM Swimming_init_Inr)
  next
    case run
    then show ?thesis
      by (simp add: read_package_RUN Running_init_Inr)
  next
    case wlk
    then show ?thesis
      by (simp add: read_package_WLK SportsWalking_init_Inr)
  next
    case other
    then show ?thesis
      by (simp add: read_package_unknown)
  qed
qed

lemma duration_zero_Running:
  "get_mean_speed (Running a 0 w) = Inl ZeroDivisionError
   \<and> get_spent_calories (Running a 0 w) = Inl ZeroDivisionError
   \<and> show_training_info (Running a 0 w) = Inl ZeroDivisionError
   \<and> main (Running a 0 w) = Inl ZeroDivisionError"
  by (simp add: truediv_zero show_training_info_def main_def)

lemma duration_zero_SportsWalking:
  "get_mean_speed (SportsWalking a 0 w h) = Inl ZeroDivisionError
   \<and> get_spent_calories (SportsWalking a 0 w h) = Inl ZeroDivisionError
   \<and> show_training_info (SportsWalking a 0 w h) = Inl ZeroDivisionError
   \<and> main (SportsWalking a 0 w h) = Inl ZeroDivisionError"
  by (simp add: truediv_zero show_training_info_def main_def)

lemma duration_zero_Swimming:
  "get_mean_speed (Swimming a 0 w lp cp) = Inl ZeroDivisionError
   \<and> get_spent_calories (Swimming a 0 w lp cp) = Inl ZeroDivisionError
   \<and> show_training_info (Swimming a 0 w lp cp) = Inl ZeroDivisionError
   \<and> main (Swimming a 0 w lp cp) = Inl ZeroDivisionError"
  by (simp add: truediv_zero show_training_info_def main_def)

lemma height_zero_SportsWalking:
  assumes "d \<noteq> 0"
  shows "get_distance (SportsWalking a d w 0) = a * 0.65 / 1000
   \<and> get_mean_speed (SportsWalking a d w 0) = Inr (a * 0.65 / 1000 / d)
   \<and> get_spent_calories (SportsWalking a d w 0) = Inl ZeroDivisionError
   \<and> show_training_info (SportsWalking a d w 0) = Inl ZeroDivisionError
   \<and> main (SportsWalking a d w 0) = Inl ZeroDivisionError"
proof -
  have dist: "get_distance (SportsWalking a d w 0) = a * 0.65 / 1000"
    by (simp add: get_distance_def constants)
  have v: "get_mean_speed (SportsWalking a d w 0) = Inr (a * 0.65 / 1000 / d)"
    using assms by (simp add: dist truediv_nonzero)
  have c: "get_spent_calories (SportsWalking a d w 0) = Inl ZeroDivisionError"
    by (simp only: get_spent_calories.simps v floordiv_zero sum.case)
  have s: "show_training_info (SportsWalking a d w 0) = Inl ZeroDivisionError"
    by (simp only: show_training_info_def v c sum.case)
  show ?thesis
    using dist v c s by (simp only: main_def sum.case simp_thms)
qed

lemma get_distance_nonneg: "0 \<le> action t \<Longrightarrow> 0 \<le> get_distance t"
  by (cases t) (simp_all add: get_distance_def M_IN_KM_def)


lemma get_mean_speed_nonneg:
  assumes "valid_reading t" and "0 \<le> action t"
  shows "\<exists>v. get_mean_speed t = Inr v \<and> 0 \<le> v"
proof (cases t)
  case (Training a d w)
  with assms show ?thesis by simp
next
  case (Running a d w)
  with assms have "0 < d" and "0 \<le> get_distance t"
    by (simp_all add: get_distance_nonneg)
  with Running show ?thesis
    by (simp add: truediv_pos)
next
  case (SportsWalking a d w h)
  with assms have "0 < d" and "0 \<le> get_distance t"
    by (simp_all add: get_distance_nonneg)
  with SportsWalking show ?thesis
    by (simp add: truediv_pos)
next
  case (Swimming a d w lp cp)
  with assms have "0 < d" and "0 \<le> lp * cp"
    by simp_all
  with Swimming show ?thesis
    by (simp add: truediv_pos M_IN_KM_def)
qed

subsection \<open>Rounding to binary64\<close>

text \<open>
  The exponent is the one of the binade the number lies in, and a rounded number in the
  normal range differs from the exact one by at most \<open>2 powi (- 53)\<close> of it.
\<close>

lemma round_half_even_error: "\<bar>of_int (round_half_even y) - y\<bar> \<le> 1 / 2"
proof -
  have "of_int \<lfloor>y\<rfloor> \<le> y" and "y < of_int \<lfloor>y\<rfloor> + 1"
    by linarith+
  then show ?thesis
    by (auto simp: round_half_even_def Let_def)
qed

lemma bitlen_bounds_rat:
  assumes "0 < n"
  shows "2 powi (bitlen n - 1) \<le> (of_int n :: rat)" and "(of_int n :: rat) < 2 powi bitlen n"
proof -
  from assms have b: "1 \<le> bitlen n"
    by (simp add: bitlen_alt_def)
  from bitlen_bounds [OF assms]
  have lo: "2 ^ nat (bitlen n - 1) \<le> n" and hi: "n < 2 ^ nat (bitlen n)"
    by simp_all
  from lo have "(of_int (2 ^ nat (bitlen n - 1)) :: rat) \<le> of_int n"
    by (simp only: of_int_le_iff)
  with b show "2 powi (bitlen n - 1) \<le> (of_int n :: rat)"
    by (simp add: power_int_def)
  from hi have "(of_int n :: rat) < of_int (2 ^ nat (bitlen n))"
    by (simp only: of_int_less_iff)
  with b show "(of_int n :: rat) < 2 powi bitlen n"
    by (simp add: power_int_def)
qed

lemma exponent_bounds:
  assumes "x \<noteq> 0"
  shows "2 powi exponent x \<le> \<bar>x\<bar>" and "\<bar>x\<bar> < 2 powi (exponent x + 1)"
proof -
  define n where "n = fst (quotient_of \<bar>x\<bar>)"
  define d where "d = snd (quotient_of \<bar>x\<bar>)"
  define k where "k = bitlen n - bitlen d"
  have d: "0 < d"
    by (simp add: d_def quotient_of_denom_pos')
  have x: "\<bar>x\<bar> = of_int n / of_int d"
    using quotient_of_div [of "\<bar>x\<bar>" n d] by (simp add: n_def d_def)
  from assms have "0 < \<bar>x\<bar>" by simp
  with x d have n: "0 < n"
    by (simp add: zero_less_divide_iff)
  have e: "exponent x = (if 2 powi k \<le> \<bar>x\<bar> then k else k - 1)"
    by (simp add: exponent_def k_def n_def d_def Let_def)
  have dr: "(0::rat) < of_int d" using d by simp
  have lo: "2 powi (k - 1) < \<bar>x\<bar>"
  proof -
    have "2 powi (k - 1) * (of_int d :: rat) < 2 powi (k - 1) * 2 powi bitlen d"
      using bitlen_bounds_rat(2) [OF d] by simp
    also have "\<dots> = 2 powi (bitlen n - 1)"
      by (simp add: k_def power_int_add [symmetric])
    also have "\<dots> \<le> of_int n"
      using bitlen_bounds_rat(1) [OF n] .
    finally show ?thesis
      using dr by (simp add: x pos_less_divide_eq)
  qed
  have hi: "\<bar>x\<bar> < 2 powi (k + 1)"
  proof -
    have "(of_int n :: rat) < 2 powi bitlen n"
      using bitlen_bounds_rat(2) [OF n] .
    also have "\<dots> = 2 powi (k + 1) * 2 powi (bitlen d - 1)"
      by (simp add: k_def power_int_add [symmetric])
    also have "\<dots> \<le> 2 powi (k + 1) * of_int d"
      using bitlen_bounds_rat(1) [OF d] by simp
    finally show ?thesis
      using dr by (simp add: x pos_divide_less_eq)
  qed
  show "2 powi exponent x \<le> \<bar>x\<bar>"
    using lo by (simp add: e)
  show "\<bar>x\<bar> < 2 powi (exponent x + 1)"
    using hi by (auto simp: e)
qed


lemma exponent_ge:
  assumes "2 powi e \<le> \<bar>x\<bar>"
  shows "e \<le> exponent x"
proof -
  have "(0::rat) < 2 powi e" by simp
  with assms have "0 < \<bar>x\<bar>" by linarith
  then have "x \<noteq> 0" by simp
  from exponent_bounds(2) [OF this] assms have less: "(2::rat) powi e < 2 powi (exponent x + 1)"
    by simp
  have "e < exponent x + 1"
  proof (rule ccontr)
    assume "\<not> e < exponent x + 1"
    then have "exponent x + 1 \<le> e" by simp
    then have "(2::rat) powi (exponent x + 1) \<le> 2 powi e"
      by (rule power_int_increasing) simp
    with less show False by simp
  qed
  then show ?thesis by simp
qed

lemma round64_error:
  assumes "2 powi (- 1022) \<le> \<bar>x\<bar>"
  shows "\<bar>round64 x - x\<bar> \<le> \<bar>x\<bar> / 2 ^ 53"
proof -
  have "(0::rat) < 2 powi (- 1022)" by simp
  with assms have "0 < \<bar>x\<bar>" by linarith
  then have nz: "x \<noteq> 0" by simp
  define e where "e = exponent x"
  define q :: rat where "q = 2 powi (e - 52)"
  define m where "m = round_half_even (\<bar>x\<bar> / q)"
  have e: "- 1022 \<le> e"
    using exponent_ge [OF assms] by (simp add: e_def)
  have q: "0 < q" by (simp add: q_def)
  have r: "round64 x = sgn x * of_int m * q"
    using nz e by (simp add: round64_def Let_def e_def [symmetric] q_def m_def max_def)
  have "round64 x - x = sgn x * (of_int m * q - \<bar>x\<bar>)"
    by (simp add: r right_diff_distrib mult_sgn_abs mult.assoc)
  then have "\<bar>round64 x - x\<bar> = \<bar>of_int m * q - \<bar>x\<bar>\<bar>"
    using nz by (simp add: abs_mult abs_sgn_eq)
  also have "of_int m * q - \<bar>x\<bar> = (of_int m - \<bar>x\<bar> / q) * q"
    using q by (simp add: algebra_simps)
  also have "\<bar>\<dots>\<bar> = \<bar>of_int m - \<bar>x\<bar> / q\<bar> * q"
    using q by (simp add: abs_mult)
  also have "\<dots> \<le> 1 / 2 * q"
    using round_half_even_error [of "\<bar>x\<bar> / q"] q
    by (intro mult_right_mono) (simp_all add: m_def)
  also have "1 / 2 * q = 2 powi e / 2 ^ 53"
    by (simp add: q_def power_int_diff)
  also have "\<dots> \<le> \<bar>x\<bar> / 2 ^ 53"
    using exponent_bounds(1) [OF nz] by (simp add: e_def divide_right_mono)
  finally show ?thesis .
qed

lemma round64_zero: "round64 0 = 0"
  by (simp add: round64_def)

lemmas ops64 = add64_def sub64_def mul64_def div64_def truediv64_def pow64_def

lemma speed_times_duration_error:
  fixes x d :: rat
  assumes x: "2 powi (- 1021) \<le> \<bar>x\<bar>" and v: "2 powi (- 1022) \<le> \<bar>x / d\<bar>"
  shows "\<bar>mul64 (div64 x d) d - x\<bar> \<le> (2 / 2 ^ 53 + 1 / 2 ^ 106) * \<bar>x\<bar>"
proof -
  define u :: rat where "u = 1 / 2 ^ 53"
  define s where "s = div64 x d"
  have u: "0 < u" "u \<le> 1 / 2" by (simp_all add: u_def)
  have "(0::rat) < 2 powi (- 1022)" by simp
  with v have "0 < \<bar>x / d\<bar>" by linarith
  then have d: "d \<noteq> 0" by auto
  have "\<bar>s - x / d\<bar> \<le> \<bar>x / d\<bar> * u"
    using round64_error [OF v] by (simp add: s_def div64_def u_def)
  then have "\<bar>s - x / d\<bar> * \<bar>d\<bar> \<le> \<bar>x / d\<bar> * u * \<bar>d\<bar>"
    by (rule mult_right_mono) simp
  then have e1: "\<bar>s * d - x\<bar> \<le> \<bar>x\<bar> * u"
    using d by (simp add: abs_mult [symmetric] left_diff_distrib abs_divide)
  then have up: "\<bar>s * d\<bar> \<le> \<bar>x\<bar> + \<bar>x\<bar> * u" and lo: "\<bar>x\<bar> - \<bar>x\<bar> * u \<le> \<bar>s * d\<bar>"
    by linarith+
  have "\<bar>x\<bar> * (1 / 2) \<le> \<bar>x\<bar> - \<bar>x\<bar> * u"
    using u(2) mult_left_mono [of u "1 / 2" "\<bar>x\<bar>"] by simp
  moreover have "(2::rat) powi (- 1021 + - 1) = 2 powi (- 1021) * 2 powi (- 1)"
    by (rule power_int_add) simp
  then have "(2::rat) powi (- 1022) = 2 powi (- 1021) * (1 / 2)"
    by (simp add: power_int_minus)
  ultimately have "2 powi (- 1022) \<le> \<bar>s * d\<bar>"
    using x lo by (simp add: mult_right_mono)
  then have "\<bar>mul64 s d - s * d\<bar> \<le> \<bar>s * d\<bar> * u"
    using round64_error [of "s * d"] by (simp add: mul64_def u_def)
  also have "\<dots> \<le> (\<bar>x\<bar> + \<bar>x\<bar> * u) * u"
    using up u(1) by (simp add: mult_right_mono)
  finally have "\<bar>mul64 s d - x\<bar> \<le> (\<bar>x\<bar> + \<bar>x\<bar> * u) * u + \<bar>x\<bar> * u"
    using e1 by linarith
  also have "\<dots> = (2 / 2 ^ 53 + 1 / 2 ^ 106) * \<bar>x\<bar>"
    by (simp add: u_def algebra_simps)
  finally show ?thesis
    by (simp add: s_def)
qed

lemma land_speed_times_duration:
  assumes "t = Running a d w \<or> t = SportsWalking a d w h"
    and "2 powi (- 1021) \<le> \<bar>get_distance64 t\<bar>"
    and "2 powi (- 1022) \<le> \<bar>get_distance64 t / round64 d\<bar>"
  shows "\<exists>v. get_mean_speed64 t = Inr v
           \<and> \<bar>mul64 v (round64 d) - get_distance64 t\<bar>
               \<le> (2 / 2 ^ 53 + 1 / 2 ^ 106) * \<bar>get_distance64 t\<bar>"
proof -
  have "(0::rat) < 2 powi (- 1022)" by simp
  with assms(3) have "0 < \<bar>get_distance64 t / round64 d\<bar>" by linarith
  then have "round64 d \<noteq> 0" by auto
  with assms(1)
  have "get_mean_speed64 t = Inr (div64 (get_distance64 t) (round64 d))"
    by (auto simp: truediv64_def)
  with speed_times_duration_error [OF assms(2,3)] show ?thesis
    by simp
qed

text \<open>
  The roundings that occur in the examples below, each computed from the definition.
\<close>

lemma round64_values:
  "round64 (1) = 1"
  "round64 (3) = 3"
  "round64 (13) = 13"
  "round64 (25) = 25"
  "round64 (40) = 40"
  "round64 (50) = 50"
  "round64 (75) = 75"
  "round64 (80) = 80"
  "round64 (150) = 150"
  "round64 (169) = 169"
  "round64 (180) = 180"
  "round64 (720) = 720"
  "round64 (1000) = 1000"
  "round64 (9000) = 9000"
  "round64 (12000) = 12000"
  "round64 (20000) = 20000"
  "round64 (13 / 5) = 5854679515581645 / 2251799813685248"
  "round64 (39 / 5) = 8782019273372467 / 1125899906842624"
  "round64 (11 / 10) = 2476979795053773 / 2251799813685248"
  "round64 (13 / 20) = 5854679515581645 / 9007199254740992"
  "round64 (117 / 20) = 3293257227514675 / 562949953421312"
  "round64 (69 / 50) = 1553741871442821 / 1125899906842624"
  "round64 (7 / 200) = 1261007895663739 / 36028797018963968"
  "round64 (13689 / 400) = 1204097173810053 / 35184372088832"
  "round64 (621 / 625) = 4474776589755325 / 4503599627370496"
  "round64 (29 / 1000) = 8358680908399641 / 288230376151711744"
  "round64 (23643898043695105 / 70368744177664) = 336"
  "round64 (69918384214926945 / 70368744177664) = 2184949506716467 / 2199023255552"
  "round64 (77264881107075075 / 140737488355328) = 549"
  "round64 (2195504818343116875 / 281474976710656) = 7800"
  "round64 (3659174697238528125 / 281474976710656) = 13000"
  "round64 (3293257227514675 / 562949953421312) = 3293257227514675 / 562949953421312"
  "round64 (5150992073805005 / 562949953421312) = 5150992073805005 / 562949953421312"
  "round64 (88664617663856655 / 562949953421312) = 5541538603991041 / 35184372088832"
  "round64 (4728779608739021 / 1125899906842624) = 4728779608739021 / 1125899906842624"
  "round64 (6586514455029350625 / 1125899906842624) = 5850"
  "round64 (2184949506716467 / 2199023255552000) = 8949553179510649 / 9007199254740992"
  "round64 (4728779608739021 / 2251799813685248) = 4728779608739021 / 2251799813685248"
  "round64 (5910974510923777 / 2251799813685248) = 5910974510923777 / 2251799813685248"
  "round64 (17564038546744935 / 2251799813685248) = 2195504818343117 / 281474976710656"
  "round64 (20603968295220021 / 2251799813685248) = 5150992073805005 / 562949953421312"
  "round64 (8782019273372467 / 3377699720527872) = 5854679515581645 / 2251799813685248"
  "round64 (94575592174780425 / 36028797018963968) = 5910974510923777 / 2251799813685248"
  "round64 (470175801097479825 / 72057594037927936) = 3673248446074061 / 562949953421312"
  "round64 (25076042725198923 / 288230376151711744) = 6269010681299731 / 72057594037927936"
  "round64 (10845543166577643855877340355625 / 316912650057057350374175801344) = 1204097173810053 / 35184372088832"
  by code_simp+

lemma floordiv64_values:
  "floordiv64 (round64 34.2225) (round64 180) = Inr 0"
  "floordiv64 169 (round64 50) = Inr 3"
  "floordiv64 13 (round64 50) = Inr 0"
  by code_simp+

lemma walking_example64:
  "get_distance64 (SportsWalking 9000 1 75 180) = round64 5.85"
  "get_mean_speed64 (SportsWalking 9000 1 75 180) = Inr (round64 5.85)"
  "pow64 (round64 5.85) SportsWalking_SPEND_CALORIES_FACTOR_1 = round64 34.2225"
  by (simp_all add: get_distance64_def ops64 constants round64_values power2_eq_square)

lemma walking_calories64:
  "get_spent_calories64 (SportsWalking 9000 1 75 180) = Inr (157.5 + 1 / 2 ^ 45)"
  by (simp only: get_spent_calories64.simps walking_example64 floordiv64_values sum.case)
    (simp add: ops64 constants round64_values round64_zero)

lemma walking_order_example64:
  "get_mean_speed64 (SportsWalking 20000 1 75 50) = Inr 13"
  "pow64 13 SportsWalking_SPEND_CALORIES_FACTOR_1 = 169"
  by (simp_all add: get_distance64_def ops64 constants round64_values)

lemma walking_order_calories64:
  "get_spent_calories64 (SportsWalking 20000 1 75 50) = Inr 549"
  by (simp only: get_spent_calories64.simps walking_order_example64 floordiv64_values sum.case)
    (simp add: ops64 constants round64_values round64_zero)

lemma swimming_example64:
  "get_distance64 (Swimming 720 1 80 25 40) = div64 (mul64 720 (round64 1.38)) 1000"
  "get_distance64 (Swimming 720 1 80 25 40) = round64 0.9936 - 1 / 2 ^ 53"
  "get_mean_speed64 (Swimming 720 1 80 25 40) = Inr (div64 (div64 (mul64 25 40) 1000) 1)"
  "get_mean_speed64 (Swimming 720 1 80 25 40) = Inr 1"
  by (simp_all add: get_distance64_def ops64 constants round64_values)

lemma swimming_calories64:
  "get_spent_calories64 (Swimming 720 1 80 25 40) = Inr (mul64 (mul64 (add64 1 (round64 1.1)) 2) 80)"
  "get_spent_calories64 (Swimming 720 1 80 25 40) = Inr 336"
  by (simp_all only: get_spent_calories64.simps swimming_example64(4) sum.case)
    (simp_all add: ops64 constants round64_values round64_zero)

lemma running_example64:
  "get_distance64 (Running 12000 3 75) = round64 7.8"
  "get_mean_speed64 (Running 12000 3 75) = Inr (round64 2.6)"
  "mul64 (round64 2.6) (round64 3) = round64 7.8 + 1 / 2 ^ 50"
  by (simp_all add: get_distance64_def ops64 constants round64_values)

lemma walking_3_hours64:
  "get_distance64 (SportsWalking 12000 3 75 180) = round64 7.8"
  "get_mean_speed64 (SportsWalking 12000 3 75 180) = Inr (round64 2.6)"
  by (simp_all add: get_distance64_def ops64 constants round64_values)

subsection \<open>The three packages of the script\<close>

text \<open>
  C1 (as amended). The walking workout read from \<^verbatim>\<open>('WLK', [9000, 1, 75, 180])\<close> has the
  distance 5.85 and the mean speed 5.85, the binary64 numbers of these literals. The
  calories of a walking workout are computed from the square of its mean speed,
  floor-divided by its height, in this order. At the package the square is 34.2225 and
  its floor division by 180 gives 0, and the calories are the binary64 number next above
  157.5 (printed 157.50000000000003), since \<open>0.035 * 75\<close> is rounded up. The order shows
  at 20000 steps and the height 50: the mean speed is 13, its square 169 floor-divided
  by 50 is 3 and the calories are 549, whereas 13 floor-divided by 50 is 0.
\<close>

theorem C1_walking_example64:
  "(get_mean_speed64 (SportsWalking a d w h) = Inr v \<longrightarrow>
      get_spent_calories64 (SportsWalking a d w h) =
        (case floordiv64 (pow64 v SportsWalking_SPEND_CALORIES_FACTOR_1) (round64 h) of
           Inl e \<Rightarrow> Inl e
         | Inr q \<Rightarrow>
             Inr (mul64
                   (mul64
                     (add64
                       (mul64 (round64 SportsWalking_SPEND_CALORIES_FACTOR) (round64 w))
                       (mul64 (mul64 q (round64 SportsWalking_SPEND_CALORIES_FACTOR_2))
                              (round64 w)))
                     (round64 d))
                   MIN_IN_HOUR)))
   \<and> read_package ''WLK'' [9000, 1, 75, 180] = Inr (SportsWalking 9000 1 75 180)
   \<and> get_distance64 (SportsWalking 9000 1 75 180) = round64 5.85
   \<and> get_mean_speed64 (SportsWalking 9000 1 75 180) = Inr (round64 5.85)
   \<and> pow64 (round64 5.85) SportsWalking_SPEND_CALORIES_FACTOR_1 = round64 34.2225
   \<and> floordiv64 (round64 34.2225) (round64 180) = Inr 0
   \<and> get_spent_calories64 (SportsWalking 9000 1 75 180) = Inr (157.5 + 1 / 2 ^ 45)
   \<and> get_mean_speed64 (SportsWalking 20000 1 75 50) = Inr 13
   \<and> pow64 13 SportsWalking_SPEND_CALORIES_FACTOR_1 = 169
   \<and> floordiv64 169 (round64 50) = Inr 3
   \<and> floordiv64 13 (round64 50) = Inr 0
   \<and> get_spent_calories64 (SportsWalking 20000 1 75 50) = Inr 549"
proof -
  have link: "get_mean_speed64 (SportsWalking a d w h) = Inr v \<longrightarrow>
      get_spent_calories64 (SportsWalking a d w h) =
        (case floordiv64 (pow64 v SportsWalking_SPEND_CALORIES_FACTOR_1) (round64 h) of
           Inl e \<Rightarrow> Inl e
         | Inr q \<Rightarrow>
             Inr (mul64
                   (mul64
                     (add64
                       (mul64 (round64 SportsWalking_SPEND_CALORIES_FACTOR) (round64 w))
                       (mul64 (mul64 q (round64 SportsWalking_SPEND_CALORIES_FACTOR_2))
                              (round64 w)))
                     (round64 d))
                   MIN_IN_HOUR))"
    by (simp del: get_mean_speed64.simps)
  have r: "read_package ''WLK'' [9000, 1, 75, 180] = Inr (SportsWalking 9000 1 75 180)"
    by (simp add: read_package_WLK)
  show ?thesis
    by (intro conjI)
      (rule link r walking_example64 walking_calories64 floordiv64_values
        walking_order_example64 walking_order_calories64)+
qed

theorem C1_walking_example64_witness:
  "get_mean_speed64 (SportsWalking 20000 1 75 50) = Inr 13
   \<and> get_spent_calories64 (SportsWalking 20000 1 75 50) =
       Inr (mul64
             (mul64
               (add64
                 (mul64 (round64 SportsWalking_SPEND_CALORIES_FACTOR) (round64 75))
                 (mul64 (mul64 3 (round64 SportsWalking_SPEND_CALORIES_FACTOR_2))
                        (round64 75)))
               (round64 1))
             MIN_IN_HOUR)"
proof -
  have v: "get_mean_speed64 (SportsWalking 20000 1 75 50) = Inr 13"
    by (rule walking_order_example64)
  from C1_walking_example64 [of 20000 1 75 50 13, THEN conjunct1] v
  have "get_spent_calories64 (SportsWalking 20000 1 75 50) =
        (case floordiv64 (pow64 13 SportsWalking_SPEND_CALORIES_FACTOR_1) (round64 50) of
           Inl e \<Rightarrow> Inl e
         | Inr q \<Rightarrow>
             Inr (mul64
                   (mul64
                     (add64
                       (mul64 (round64 SportsWalking_SPEND_CALORIES_FACTOR) (round64 75))
                       (mul64 (mul64 q (round64 SportsWalking_SPEND_CALORIES_FACTOR_2))
                              (round64 75)))
                     (round64 1))
                   MIN_IN_HOUR))"
    by (rule mp)
  then have "get_spent_calories64 (SportsWalking 20000 1 75 50) =
       Inr (mul64
             (mul64
               (add64
                 (mul64 (round64 SportsWalking_SPEND_CALORIES_FACTOR) (round64 75))
                 (mul64 (mul64 3 (round64 SportsWalking_SPEND_CALORIES_FACTOR_2))
                        (round64 75)))
               (round64 1))
             MIN_IN_HOUR)"
    by (simp only: walking_order_example64 floordiv64_values sum.case)
  with v show ?thesis
    by (rule conjI)
qed

text \<open>
  The calories of the package are not 157.5.
\<close>

theorem C1_walking_example64_counterexample:
  "get_spent_calories64 (SportsWalking 9000 1 75 180) \<noteq> Inr 157.5"
  by (simp only: walking_calories64) simp

text \<open>
  C2 (as amended). The running workout read from \<^verbatim>\<open>('RUN', [15000, 1, 75])\<close> has the
  distance 9.75 and the mean speed 9.75, and its calories are
  \<open>(18 * 9.75 - 20) * 75 / 1000 * (1 * 60)\<close>, which is 699.75.
\<close>

theorem C2_running_example:
  "read_package ''RUN'' [15000, 1, 75] = Inr (Running 15000 1 75)
   \<and> get_distance (Running 15000 1 75) = 9.75
   \<and> get_mean_speed (Running 15000 1 75) = Inr 9.75
   \<and> get_spent_calories (Running 15000 1 75) = Inr ((18 * 9.75 - 20) * 75 / 1000 * (1 * 60))
   \<and> get_spent_calories (Running 15000 1 75) = Inr 699.75"
proof -
  have r: "read_package ''RUN'' [15000, 1, 75] = Inr (Running 15000 1 75)"
    by (simp add: read_package_RUN)
  have d: "get_distance (Running 15000 1 75) = 9.75"
    by (simp add: get_distance_def constants)
  have v: "get_mean_speed (Running 15000 1 75) = Inr 9.75"
    by (simp add: d truediv_def)
  have c: "get_spent_calories (Running 15000 1 75) = Inr ((18 * 9.75 - 20) * 75 / 1000 * (1 * 60))"
    by (simp only: get_spent_calories.simps v sum.case) (simp add: constants)
  have c': "get_spent_calories (Running 15000 1 75) = Inr 699.75"
    by (simp only: c) simp
  show ?thesis
    by (intro conjI) (rule r d v c c')+
qed

text \<open>
  The value 744.75 is not what the formula gives at this package.
\<close>

theorem C2_running_example_counterexample:
  "get_spent_calories (Running 15000 1 75) \<noteq> Inr 744.75"
proof -
  have d: "get_distance (Running 15000 1 75) = 9.75"
    by (simp add: get_distance_def constants)
  have v: "get_mean_speed (Running 15000 1 75) = Inr 9.75"
    by (simp add: d truediv_def)
  show ?thesis
    by (simp only: get_spent_calories.simps v sum.case) (simp add: constants)
qed

text \<open>
  C3 (as amended). The swimming workout read from \<^verbatim>\<open>('SWM', [720, 1, 80, 25, 40])\<close> has
  the distance \<open>720 * 1.38 / 1000\<close> with the stroke length 1.38 of the swimming class,
  which in binary64 is the number next below 0.9936 (printed 0.9935999999999999), the
  overridden mean speed \<open>25 * 40 / 1000 / 1 = 1\<close>, and the calories
  \<open>(1 + 1.1) * 2 * 80 = 336\<close>.
\<close>

theorem C3_swimming_example64:
  "read_package ''SWM'' [720, 1, 80, 25, 40] = Inr (Swimming 720 1 80 25 40)
   \<and> LEN_STEP (Swimming 720 1 80 25 40) = 1.38
   \<and> get_distance64 (Swimming 720 1 80 25 40) = div64 (mul64 720 (round64 1.38)) 1000
   \<and> get_distance64 (Swimming 720 1 80 25 40) = round64 0.9936 - 1 / 2 ^ 53
   \<and> get_mean_speed64 (Swimming 720 1 80 25 40) = Inr (div64 (div64 (mul64 25 40) 1000) 1)
   \<and> get_mean_speed64 (Swimming 720 1 80 25 40) = Inr 1
   \<and> get_spent_calories64 (Swimming 720 1 80 25 40)
       = Inr (mul64 (mul64 (add64 1 (round64 1.1)) 2) 80)
   \<and> get_spent_calories64 (Swimming 720 1 80 25 40) = Inr 336"
proof -
  have r: "read_package ''SWM'' [720, 1, 80, 25, 40] = Inr (Swimming 720 1 80 25 40)"
    by (simp add: read_package_SWM)
  have l: "LEN_STEP (Swimming 720 1 80 25 40) = 1.38"
    by simp
  show ?thesis
    by (intro conjI) (rule r l swimming_example64 swimming_calories64)+
qed

text \<open>
  The distance of the package is neither the binary64 number 0.9936 nor the fraction.
\<close>

theorem C3_swimming_example64_counterexample:
  "get_distance64 (Swimming 720 1 80 25 40) \<noteq> round64 0.9936
   \<and> get_distance64 (Swimming 720 1 80 25 40) \<noteq> 0.9936"
  by (simp add: swimming_example64(2) round64_values)

subsection \<open>Reading a package\<close>

text \<open>
  C4 (as amended). \<^verbatim>\<open>read_package\<close> returns a workout exactly when the code is one of
  \<^verbatim>\<open>SWM\<close>, \<^verbatim>\<open>RUN\<close>, \<^verbatim>\<open>WLK\<close> and the list has as many elements as the class has fields
  (5, 3 and 4); it then is the swimming, running or walking workout whose fields are the
  elements of the list in declaration order. For every other code it raises the
  \<^verbatim>\<open>ValueError\<close> of an unknown workout type, whatever the list.
\<close>

theorem C4_dispatch:
  "((\<exists>t. read_package wt data = Inr t) \<longleftrightarrow>
      (wt = ''SWM'' \<and> length data = 5) \<or> (wt = ''RUN'' \<and> length data = 3)
      \<or> (wt = ''WLK'' \<and> length data = 4))
   \<and> read_package ''SWM'' [a, d, w, lp, cp] = Inr (Swimming a d w lp cp)
   \<and> read_package ''RUN'' [a, d, w] = Inr (Running a d w)
   \<and> read_package ''WLK'' [a, d, w, h] = Inr (SportsWalking a d w h)
   \<and> (wt \<notin> {''SWM'', ''RUN'', ''WLK''}
        \<longrightarrow> read_package wt data = Inl (ValueError UNKNOWN_TYPE_TEXT))"
  using read_package_Inr [of wt data]
  by (simp add: read_package_SWM read_package_RUN read_package_WLK read_package_unknown)

theorem C4_dispatch_witness:
  "read_package ''XYZ'' [15000, 1, 75] = Inl (ValueError UNKNOWN_TYPE_TEXT)
   \<and> \<not> (\<exists>t. read_package ''XYZ'' [15000, 1, 75] = Inr t)
   \<and> (\<exists>t. read_package ''RUN'' [15000, 1, 75] = Inr t)
   \<and> read_package ''RUN'' [15000, 1, 75] = Inr (Running 15000 1 75)"
  using C4_dispatch [of "''XYZ''" "[15000, 1, 75]" 15000 1 75 0 0 0]
    C4_dispatch [of "''RUN''" "[15000, 1, 75]" 15000 1 75 0 0 0]
  by simp

text \<open>
  A known code alone is not enough: with an empty list the running workout is not built.
\<close>

theorem C4_dispatch_counterexample:
  "read_package ''RUN'' [] = Inl TypeError"
  by (simp add: read_package_RUN)

text \<open>
  C5 (as amended). Nothing is validated when a workout is built: a package with the
  duration 0, and a walking package with the height 0, are read into a workout. The zero
  shows only when a method divides by it: with the duration 0 the mean speed, the
  calories and the printed summary of every workout raise \<^verbatim>\<open>ZeroDivisionError\<close>; with the
  height 0 and another duration the walking workout has a mean speed, and its calories
  and its printed summary raise \<^verbatim>\<open>ZeroDivisionError\<close>.
\<close>

theorem C5_no_validation:
  "read_package ''RUN'' [a, 0, w] = Inr (Running a 0 w)
   \<and> read_package ''WLK'' [a, 0, w, h] = Inr (SportsWalking a 0 w h)
   \<and> read_package ''SWM'' [a, 0, w, lp, cp] = Inr (Swimming a 0 w lp cp)
   \<and> read_package ''WLK'' [a, d, w, 0] = Inr (SportsWalking a d w 0)
   \<and> get_mean_speed (Running a 0 w) = Inl ZeroDivisionError
   \<and> get_spent_calories (Running a 0 w) = Inl ZeroDivisionError
   \<and> main (Running a 0 w) = Inl ZeroDivisionError
   \<and> get_mean_speed (SportsWalking a 0 w h) = Inl ZeroDivisionError
   \<and> get_spent_calories (SportsWalking a 0 w h) = Inl ZeroDivisionError
   \<and> main (SportsWalking a 0 w h) = Inl ZeroDivisionError
   \<and> get_mean_speed (Swimming a 0 w lp cp) = Inl ZeroDivisionError
   \<and> get_spent_calories (Swimming a 0 w lp cp) = Inl ZeroDivisionError
   \<and> main (Swimming a 0 w lp cp) = Inl ZeroDivisionError
   \<and> (d \<noteq> 0 \<longrightarrow>
        get_mean_speed (SportsWalking a d w 0) = Inr (a * 0.65 / 1000 / d)
        \<and> get_spent_calories (SportsWalking a d w 0) = Inl ZeroDivisionError
        \<and> main (SportsWalking a d w 0) = Inl ZeroDivisionError)"
  using duration_zero_Running [of a w] duration_zero_SportsWalking [of a w h]
    duration_zero_Swimming [of a w lp cp] height_zero_SportsWalking [of d a w]
  by (simp add: read_package_RUN read_package_WLK read_package_SWM
      del: get_mean_speed.simps get_spent_calories.simps)

theorem C5_no_validation_witness:
  "read_package ''WLK'' [9000, 1, 75, 0] = Inr (SportsWalking 9000 1 75 0)
   \<and> get_mean_speed (SportsWalking 9000 1 75 0) = Inr 5.85
   \<and> get_spent_calories (SportsWalking 9000 1 75 0) = Inl ZeroDivisionError
   \<and> main (SportsWalking 9000 1 75 0) = Inl ZeroDivisionError
   \<and> main (Running 9000 0 75) = Inl ZeroDivisionError"
  using C5_no_validation [of 9000 75 0 0 0 1]
  by (simp del: get_mean_speed.simps get_spent_calories.simps)

text \<open>
  Reading a package with the duration 0, or a walking package with the height 0,
  succeeds.
\<close>

theorem C5_no_validation_counterexample:
  "read_package ''RUN'' [15000, 0, 75] = Inr (Running 15000 0 75)
   \<and> read_package ''WLK'' [9000, 1, 75, 0] = Inr (SportsWalking 9000 1 75 0)"
  by (simp add: read_package_RUN read_package_WLK)

text \<open>
  C6 (as amended). Given a known code and a list whose length is not the number of fields
  of the class, \<^verbatim>\<open>read_package\<close> fails with the \<^verbatim>\<open>TypeError\<close> that the call of the
  constructor raises; the function itself does not check the length.
\<close>

theorem C6_arity_mismatch:
  "(length data \<noteq> 5 \<longrightarrow> read_package ''SWM'' data = Inl TypeError)
   \<and> (length data \<noteq> 3 \<longrightarrow> read_package ''RUN'' data = Inl TypeError)
   \<and> (length data \<noteq> 4 \<longrightarrow> read_package ''WLK'' data = Inl TypeError)"
  by (simp add: read_package_SWM read_package_RUN read_package_WLK
      Running_init_TypeError SportsWalking_init_TypeError Swimming_init_TypeError)

theorem C6_arity_mismatch_witness:
  "read_package ''SWM'' [720, 1, 80, 25] = Inl TypeError
   \<and> read_package ''RUN'' [720, 1, 80, 25] = Inl TypeError
   \<and> read_package ''WLK'' [720, 1, 80, 25, 40] = Inl TypeError"
  using C6_arity_mismatch [of "[720, 1, 80, 25]"] C6_arity_mismatch [of "[720, 1, 80, 25, 40]"]
  by simp

text \<open>
  A walking package that lacks the height fails with the \<^verbatim>\<open>TypeError\<close> of the call.
\<close>

theorem C6_arity_mismatch_counterexample:
  "read_package ''WLK'' [9000, 1, 75] = Inl TypeError"
  by (simp add: read_package_WLK)

subsection \<open>Properties of valid readings\<close>

text \<open>
  C7. For a valid reading whose action count is not negative, the distance is not
  negative, and the mean speed is returned and is not negative, in each of the three
  workouts.
\<close>

theorem C7_nonnegative:
  assumes "valid_reading t" and "0 \<le> action t"
  shows "0 \<le> get_distance t \<and> (\<exists>v. get_mean_speed t = Inr v \<and> 0 \<le> v)"
  using assms by (simp add: get_distance_nonneg get_mean_speed_nonneg)

theorem C7_nonnegative_witness:
  "valid_reading (Swimming 720 1 80 25 40) \<and> 0 \<le> action (Swimming 720 1 80 25 40)
   \<and> 0 \<le> get_distance (Swimming 720 1 80 25 40)
   \<and> (\<exists>v. get_mean_speed (Swimming 720 1 80 25 40) = Inr v \<and> 0 \<le> v)"
proof -
  have v: "valid_reading (Swimming 720 1 80 25 40)" by simp
  have a: "0 \<le> action (Swimming 720 1 80 25 40)" by simp
  show ?thesis
    using v a C7_nonnegative [OF v a] by (simp only: simp_thms)
qed

text \<open>
  C9 (as amended). In the running and the walking workout the mean speed is the rounded
  quotient of distance and duration, so the mean speed times the duration is the
  distance up to the two roundings: when the distance is not below \<open>2 powi (- 1021)\<close>
  and the quotient not below \<open>2 powi (- 1022)\<close> in magnitude, the two differ by at most
  \<open>2 / 2 ^ 53 + 1 / 2 ^ 106\<close> of the distance, and they are equal when the distance is 0.
  They need not be equal: the valid readings of 12000 steps in 3 hours have the distance
  7.8 and the mean speed 2.6, whose product with 3 is the binary64 number next above
  7.8. In the swimming workout the two are not
  related: the package \<^verbatim>\<open>('SWM', [720, 1, 80, 25, 40])\<close> is valid, its distance, from the
  strokes, is the number next below 0.9936, and its mean speed 1, from the pool, times
  its duration 1 is 1, farther from the distance than that bound.
\<close>

theorem C9_speed_times_duration64:
  "(2 powi (- 1021) \<le> \<bar>get_distance64 (Running a d w)\<bar> \<longrightarrow>
    2 powi (- 1022) \<le> \<bar>get_distance64 (Running a d w) / round64 d\<bar> \<longrightarrow>
      (\<exists>v. get_mean_speed64 (Running a d w) = Inr v
           \<and> \<bar>mul64 v (round64 d) - get_distance64 (Running a d w)\<bar>
               \<le> (2 / 2 ^ 53 + 1 / 2 ^ 106) * \<bar>get_distance64 (Running a d w)\<bar>))
   \<and> (2 powi (- 1021) \<le> \<bar>get_distance64 (SportsWalking a d w h)\<bar> \<longrightarrow>
      2 powi (- 1022) \<le> \<bar>get_distance64 (SportsWalking a d w h) / round64 d\<bar> \<longrightarrow>
      (\<exists>v. get_mean_speed64 (SportsWalking a d w h) = Inr v
           \<and> \<bar>mul64 v (round64 d) - get_distance64 (SportsWalking a d w h)\<bar>
               \<le> (2 / 2 ^ 53 + 1 / 2 ^ 106) * \<bar>get_distance64 (SportsWalking a d w h)\<bar>))
   \<and> (get_distance64 (Running a d w) = 0 \<longrightarrow> round64 d \<noteq> 0 \<longrightarrow>
        get_mean_speed64 (Running a d w) = Inr 0
        \<and> mul64 0 (round64 d) = get_distance64 (Running a d w))
   \<and> (get_distance64 (SportsWalking a d w h) = 0 \<longrightarrow> round64 d \<noteq> 0 \<longrightarrow>
        get_mean_speed64 (SportsWalking a d w h) = Inr 0
        \<and> mul64 0 (round64 d) = get_distance64 (SportsWalking a d w h))
   \<and> valid_reading (Running 12000 3 75)
   \<and> get_distance64 (Running 12000 3 75) = round64 7.8
   \<and> get_mean_speed64 (Running 12000 3 75) = Inr (round64 2.6)
   \<and> valid_reading (SportsWalking 12000 3 75 180)
   \<and> get_distance64 (SportsWalking 12000 3 75 180) = round64 7.8
   \<and> get_mean_speed64 (SportsWalking 12000 3 75 180) = Inr (round64 2.6)
   \<and> mul64 (round64 2.6) (round64 3) = round64 7.8 + 1 / 2 ^ 50
   \<and> valid_reading (Swimming 720 1 80 25 40)
   \<and> get_distance64 (Swimming 720 1 80 25 40) = round64 0.9936 - 1 / 2 ^ 53
   \<and> get_mean_speed64 (Swimming 720 1 80 25 40) = Inr 1
   \<and> mul64 1 (round64 1) = 1
   \<and> (2 / 2 ^ 53 + 1 / 2 ^ 106) * \<bar>get_distance64 (Swimming 720 1 80 25 40)\<bar>
       < \<bar>mul64 1 (round64 1) - get_distance64 (Swimming 720 1 80 25 40)\<bar>"
proof -
  have run: "2 powi (- 1021) \<le> \<bar>get_distance64 (Running a d w)\<bar> \<longrightarrow>
    2 powi (- 1022) \<le> \<bar>get_distance64 (Running a d w) / round64 d\<bar> \<longrightarrow>
      (\<exists>v. get_mean_speed64 (Running a d w) = Inr v
           \<and> \<bar>mul64 v (round64 d) - get_distance64 (Running a d w)\<bar>
               \<le> (2 / 2 ^ 53 + 1 / 2 ^ 106) * \<bar>get_distance64 (Running a d w)\<bar>)"
    using land_speed_times_duration [of "Running a d w" a d w] by blast
  have wlk: "2 powi (- 1021) \<le> \<bar>get_distance64 (SportsWalking a d w h)\<bar> \<longrightarrow>
      2 powi (- 1022) \<le> \<bar>get_distance64 (SportsWalking a d w h) / round64 d\<bar> \<longrightarrow>
      (\<exists>v. get_mean_speed64 (SportsWalking a d w h) = Inr v
           \<and> \<bar>mul64 v (round64 d) - get_distance64 (SportsWalking a d w h)\<bar>
               \<le> (2 / 2 ^ 53 + 1 / 2 ^ 106) * \<bar>get_distance64 (SportsWalking a d w h)\<bar>)"
    using land_speed_times_duration [of "SportsWalking a d w h" a d w h] by blast
  have run0: "get_distance64 (Running a d w) = 0 \<longrightarrow> round64 d \<noteq> 0 \<longrightarrow>
        get_mean_speed64 (Running a d w) = Inr 0
        \<and> mul64 0 (round64 d) = get_distance64 (Running a d w)"
    by (simp add: truediv64_def div64_def mul64_def round64_zero)
  have wlk0: "get_distance64 (SportsWalking a d w h) = 0 \<longrightarrow> round64 d \<noteq> 0 \<longrightarrow>
        get_mean_speed64 (SportsWalking a d w h) = Inr 0
        \<and> mul64 0 (round64 d) = get_distance64 (SportsWalking a d w h)"
    by (simp add: truediv64_def div64_def mul64_def round64_zero)
  have ok: "valid_reading (Running 12000 3 75)" "valid_reading (SportsWalking 12000 3 75 180)"
    "valid_reading (Swimming 720 1 80 25 40)"
    by simp_all
  have one: "mul64 1 (round64 1) = 1"
    by (simp add: ops64 round64_values)
  have far: "(2 / 2 ^ 53 + 1 / 2 ^ 106) * \<bar>get_distance64 (Swimming 720 1 80 25 40)\<bar>
       < \<bar>mul64 1 (round64 1) - get_distance64 (Swimming 720 1 80 25 40)\<bar>"
    by (simp only: one swimming_example64(2)) (simp add: round64_values)
  show ?thesis
    by (intro conjI)
      (rule run wlk run0 wlk0 ok running_example64 walking_3_hours64
        swimming_example64(2) swimming_example64(4) one far)+
qed

theorem C9_speed_times_duration64_witness:
  "2 powi (- 1021) \<le> \<bar>get_distance64 (Running 12000 3 75)\<bar>
   \<and> 2 powi (- 1022) \<le> \<bar>get_distance64 (Running 12000 3 75) / round64 3\<bar>
   \<and> (\<exists>v. get_mean_speed64 (Running 12000 3 75) = Inr v
          \<and> \<bar>mul64 v (round64 3) - get_distance64 (Running 12000 3 75)\<bar>
              \<le> (2 / 2 ^ 53 + 1 / 2 ^ 106) * \<bar>get_distance64 (Running 12000 3 75)\<bar>)"
proof -
  have small: "(2::rat) powi (- 1021) \<le> 1" "(2::rat) powi (- 1022) \<le> 1"
    using power_int_increasing [of "- 1021" 0 "2::rat"]
      power_int_increasing [of "- 1022" 0 "2::rat"] by simp_all
  have "(1::rat) \<le> \<bar>get_distance64 (Running 12000 3 75)\<bar>"
    by (simp only: running_example64(1)) (simp add: round64_values)
  with small have h1: "2 powi (- 1021) \<le> \<bar>get_distance64 (Running 12000 3 75)\<bar>"
    by linarith
  have "(1::rat) \<le> \<bar>get_distance64 (Running 12000 3 75) / round64 3\<bar>"
    by (simp only: running_example64(1)) (simp add: round64_values)
  with small have h2: "2 powi (- 1022) \<le> \<bar>get_distance64 (Running 12000 3 75) / round64 3\<bar>"
    by linarith
  from C9_speed_times_duration64 [of 12000 3 75 180, THEN conjunct1] h1 h2
  have "\<exists>v. get_mean_speed64 (Running 12000 3 75) = Inr v
          \<and> \<bar>mul64 v (round64 3) - get_distance64 (Running 12000 3 75)\<bar>
              \<le> (2 / 2 ^ 53 + 1 / 2 ^ 106) * \<bar>get_distance64 (Running 12000 3 75)\<bar>"
    by blast
  with h1 h2 show ?thesis
    by (intro conjI)
qed

text \<open>
  The product of the mean speed and the duration of 12000 steps in 3 hours is not the
  distance.
\<close>

theorem C9_speed_times_duration64_counterexample:
  "get_mean_speed64 (Running 12000 3 75) = Inr (round64 2.6)
   \<and> mul64 (round64 2.6) (round64 3) \<noteq> get_distance64 (Running 12000 3 75)"
proof -
  have "mul64 (round64 2.6) (round64 3) \<noteq> get_distance64 (Running 12000 3 75)"
    by (simp only: running_example64(1,3)) simp
  with running_example64(2) show ?thesis
    by (rule conjI)
qed

text \<open>
  C10. The calories of a valid running reading are negative exactly when 18 times the
  mean speed is below 20, that is when the mean speed is below 10/9. Such readings
  exist: 1000 steps in 1 hour at 75 kg give the mean speed 0.65 and the calories -37.35.
\<close>

theorem C10_running_negative_calories:
  "(valid_reading (Running a d w) \<longrightarrow>
      (\<exists>v c. get_mean_speed (Running a d w) = Inr v
             \<and> get_spent_calories (Running a d w) = Inr c
             \<and> (c < 0 \<longleftrightarrow> 18 * v < 20) \<and> (18 * v < 20 \<longleftrightarrow> v < 10 / 9)))
   \<and> valid_reading (Running 1000 1 75)
   \<and> get_mean_speed (Running 1000 1 75) = Inr 0.65
   \<and> get_spent_calories (Running 1000 1 75) = Inr (- 37.35)
   \<and> (\<exists>t c. valid_reading t \<and> get_spent_calories t = Inr c \<and> c < 0)"
proof -
  have general: "valid_reading (Running a d w) \<longrightarrow>
      (\<exists>v c. get_mean_speed (Running a d w) = Inr v
             \<and> get_spent_calories (Running a d w) = Inr c
             \<and> (c < 0 \<longleftrightarrow> 18 * v < 20) \<and> (18 * v < 20 \<longleftrightarrow> v < 10 / 9))"
  proof
    assume "valid_reading (Running a d w)"
    then have d: "0 < d" and w: "0 < w" by simp_all
    define v where "v = get_distance (Running a d w) / d"
    define c where "c = (18 * v - 20) * w / 1000 * (d * 60)"
    have speed: "get_mean_speed (Running a d w) = Inr v"
      using d by (simp add: truediv_pos v_def)
    have cal: "get_spent_calories (Running a d w) = Inr c"
      by (simp only: get_spent_calories.simps speed sum.case) (simp add: constants c_def)
    define k where "k = w / 1000 * (d * 60)"
    have k: "0 < k"
      using d w by (simp add: k_def)
    have "c = (18 * v - 20) * k"
      by (simp add: c_def k_def)
    with k have sign: "c < 0 \<longleftrightarrow> 18 * v < 20"
      by (auto simp: mult_less_0_iff)
    have "18 * v < 20 \<longleftrightarrow> v < 10 / 9"
      by auto
    with speed cal sign show "\<exists>v c. get_mean_speed (Running a d w) = Inr v
             \<and> get_spent_calories (Running a d w) = Inr c
             \<and> (c < 0 \<longleftrightarrow> 18 * v < 20) \<and> (18 * v < 20 \<longleftrightarrow> v < 10 / 9)"
      by blast
  qed
  have ok: "valid_reading (Running 1000 1 75)"
    by simp
  have speed: "get_mean_speed (Running 1000 1 75) = Inr 0.65"
    by (simp add: truediv_def get_distance_def constants)
  have cal: "get_spent_calories (Running 1000 1 75) = Inr (- 37.35)"
    by (simp only: get_spent_calories.simps speed sum.case) (simp add: constants)
  have "(- 37.35 :: rat) < 0"
    by simp
  with ok cal have ex: "\<exists>t c. valid_reading t \<and> get_spent_calories t = Inr c \<and> c < 0"
    by blast
  show ?thesis
    by (intro conjI) (rule general ok speed cal ex)+
qed

theorem C10_running_negative_calories_witness:
  "valid_reading (Running 1000 1 75)
   \<and> (\<exists>v c. get_mean_speed (Running 1000 1 75) = Inr v
            \<and> get_spent_calories (Running 1000 1 75) = Inr c \<and> 18 * v < 20 \<and> c < 0)"
proof -
  have ok: "valid_reading (Running 1000 1 75)"
    by simp
  from C10_running_negative_calories [of 1000 1 75] ok
  obtain v c where "get_mean_speed (Running 1000 1 75) = Inr v"
    and "get_spent_calories (Running 1000 1 75) = Inr c"
    and "c < 0 \<longleftrightarrow> 18 * v < 20" and "get_mean_speed (Running 1000 1 75) = Inr 0.65"
    by blast
  then show ?thesis
    using ok by auto
qed

end
